theory Spec2Isabelle
  imports Main "HOL-Library.Word"
begin

section \<open>Python values used by decrypt-secrets.py\<close>

text \<open>
  \<open>bytes\<close> objects are lists of 8-bit words, \<open>str\<close> objects are strings. An exception
  is a value: its class and the text that \<open>str(e)\<close> gives. Every class listed is a
  subclass of Python's \<open>Exception\<close>, so an \<open>except Exception\<close> clause catches each of them.
\<close>

type_synonym byte = "8 word"
type_synonym bytes = "byte list"

datatype exception_class =
    ValueError | TypeError | BinasciiError | UnicodeEncodeError | UnicodeDecodeError
  | InvalidTag | UnsupportedAlgorithm | OSError

datatype py_exception = Raised exception_class string

fun str_of :: "py_exception \<Rightarrow> string" where
  "str_of (Raised c msg) = msg"

fun class_of :: "py_exception \<Rightarrow> exception_class" where
  "class_of (Raised c msg) = c"

text \<open>
  Sequencing of two computations that may raise, and \<open>try: body except Exception as e: handler\<close>.
\<close>

definition and_then :: "py_exception + 'a \<Rightarrow> ('a \<Rightarrow> py_exception + 'b) \<Rightarrow> py_exception + 'b" where
  "and_then m f = (case m of Inl e \<Rightarrow> Inl e | Inr v \<Rightarrow> f v)"

definition try_except :: "py_exception + 'a \<Rightarrow> (py_exception \<Rightarrow> py_exception + 'a) \<Rightarrow> py_exception + 'a" where
  "try_except body handler = (case body of Inr v \<Rightarrow> Inr v | Inl e \<Rightarrow> handler e)"

text \<open>
  Python's slice \<open>xs[lo:hi]\<close> with step 1: a missing bound is the end of the sequence, a
  negative bound counts from the end, and every bound is clamped into \<open>0..len(xs)\<close>.
\<close>

definition slice_bound :: "int \<Rightarrow> int \<Rightarrow> int" where
  "slice_bound n i = (if i < 0 then max 0 (n + i) else min n i)"

definition py_slice :: "int option \<Rightarrow> int option \<Rightarrow> 'a list \<Rightarrow> 'a list" where
  "py_slice lo hi xs =
     (let n = int (length xs);
          l = (case lo of None \<Rightarrow> 0 | Some i \<Rightarrow> slice_bound n i);
          h = (case hi of None \<Rightarrow> n | Some i \<Rightarrow> slice_bound n i)
      in take (nat (h - l)) (drop (nat l) xs))"

section \<open>The library calls the script makes\<close>

text \<open>
  The script calls \<open>base64.b64decode\<close>, \<open>str.encode('utf-8')\<close>, \<open>bytes.decode('utf-8')\<close>,
  \<open>PBKDF2HMAC(...).derive\<close> and \<open>AESGCM(key).decrypt\<close>. None of them is code of this
  repository, so each is a parameter: a field of the record \<open>py_library\<close>. A call
  either raises (\<open>Inl\<close>) or returns (\<open>Inr\<close>).
\<close>

datatype hash_algorithm = SHA1 | SHA256 | SHA512

text \<open>The keyword arguments of the \<open>PBKDF2HMAC\<close> constructor.\<close>

record pbkdf2hmac =
  kdf_algorithm :: hash_algorithm
  kdf_length :: nat
  kdf_salt :: bytes
  kdf_iterations :: nat

text \<open>
  \<open>aesgcm_decrypt lib key nonce data associated_data\<close> stands for
  \<open>AESGCM(key).decrypt(nonce, data, associated_data)\<close>, constructor included.
\<close>

record py_library =
  b64decode :: "string \<Rightarrow> py_exception + bytes"
  str_encode_utf8 :: "string \<Rightarrow> py_exception + bytes"
  bytes_decode_utf8 :: "bytes \<Rightarrow> py_exception + string"
  pbkdf2hmac_derive :: "pbkdf2hmac \<Rightarrow> bytes \<Rightarrow> py_exception + bytes"
  aesgcm_decrypt :: "bytes \<Rightarrow> bytes \<Rightarrow> bytes \<Rightarrow> bytes option \<Rightarrow> py_exception + bytes"

section \<open>Key derivation and password verification\<close>

text \<open>
  \<open>derive_key_from_password\<close>: decode the salt, build the KDF object with the script's
  constants, encode the password, derive. The KDF object is built anew in every call.
\<close>

definition derive_key_from_password :: "py_library \<Rightarrow> string \<Rightarrow> string \<Rightarrow> py_exception + bytes" where
  "derive_key_from_password lib password salt_b64 =
     and_then (b64decode lib salt_b64) (\<lambda>salt_bytes.
       let kdf = \<lparr>kdf_algorithm = SHA256, kdf_length = 32,
                  kdf_salt = salt_bytes, kdf_iterations = 1000000\<rparr>
       in and_then (str_encode_utf8 lib password) (\<lambda>key_material.
            pbkdf2hmac_derive lib kdf key_material))"

text \<open>
  \<open>verify_password\<close>: the whole body is inside \<open>try\<close>; the handler returns \<open>False\<close>.
\<close>

definition verify_password :: "py_library \<Rightarrow> string \<Rightarrow> string \<Rightarrow> string \<Rightarrow> py_exception + bool" where
  "verify_password lib password salt_b64 expected_hash_b64 =
     try_except
       (and_then (derive_key_from_password lib password salt_b64) (\<lambda>derived_key.
          and_then (b64decode lib expected_hash_b64) (\<lambda>expected_key.
            Inr (derived_key = expected_key))))
       (\<lambda>e. Inr False)"

section \<open>Decryption of one value\<close>

text \<open>
  \<open>decrypt_value\<close>: decode, slice into nonce, tag and ciphertext, hand the ciphertext
  followed by the tag to AES-GCM with no associated data, decode the plaintext as UTF-8.
  Any exception of the body is replaced by a \<open>ValueError\<close>.
\<close>

definition decrypt_value :: "py_library \<Rightarrow> string \<Rightarrow> bytes \<Rightarrow> int \<Rightarrow> py_exception + string" where
  "decrypt_value lib ciphertext_b64 key tag_size =
     try_except
       (and_then (b64decode lib ciphertext_b64) (\<lambda>encrypted_data.
          let nonce_size = 12;
              nonce = py_slice None (Some nonce_size) encrypted_data;
              tag = py_slice (Some nonce_size) (Some (nonce_size + tag_size)) encrypted_data;
              ciphertext = py_slice (Some (nonce_size + tag_size)) None encrypted_data;
              ciphertext_with_tag = ciphertext @ tag
          in and_then (aesgcm_decrypt lib key nonce ciphertext_with_tag None) (\<lambda>plaintext.
               bytes_decode_utf8 lib plaintext)))
       (\<lambda>e. Inl (Raised ValueError (''Decryption failed: '' @ str_of e)))"

section \<open>The decryption loop of main\<close>

text \<open>
  \<open>all_secrets\<close> is the object under \<open>secrets.secrets\<close> of the state document: service name
  to service secrets, in insertion order. The value stored for a service is either an
  object from secret key to encrypted text, or some other JSON value, of which only its
  truth value matters to the script.
\<close>

datatype service_secrets = Dict "(string \<times> string) list" | NotDict bool

fun truthy :: "service_secrets \<Rightarrow> bool" where
  "truthy (Dict entries) = (entries \<noteq> [])"
| "truthy (NotDict b) = b"

fun isinstance_dict :: "service_secrets \<Rightarrow> bool" where
  "isinstance_dict (Dict entries) = True"
| "isinstance_dict (NotDict b) = False"

fun dict_items :: "service_secrets \<Rightarrow> (string \<times> string) list" where
  "dict_items (Dict entries) = entries"
| "dict_items (NotDict b) = []"

text \<open>
  What the loops do to the outside world can raise as well: \<open>print\<close> and \<open>print_color\<close>,
  \<open>open(secret_file, 'w')\<close>, \<open>f.write\<close>, closing the file when the \<open>with\<close> block is left,
  and \<open>secret_file.chmod\<close>. Each is a parameter, a field of the record \<open>py_io\<close>, that
  says whether the operation raises (\<open>Some\<close> exception) or succeeds (\<open>None\<close>). A write that
  succeeds appends its text to the file; one that raises leaves the file as it was. The
  answer for a write may depend on what the file already holds and on the text, so the
  record also covers texts that the file's encoding cannot represent.
\<close>

datatype console_message =
    Processing string
  | Decrypting string
  | Ok_mark
  | Failed_mark string
  | Blank_line

record py_io =
  print_error :: "console_message \<Rightarrow> py_exception option"
  open_error :: "string \<Rightarrow> py_exception option"
  write_error :: "string list \<Rightarrow> string \<Rightarrow> py_exception option"
  close_error :: "string list \<Rightarrow> py_exception option"
  chmod_error :: "string \<Rightarrow> py_exception option"

text \<open>
  The state the two loops update: the secret files written so far (service name and the
  lines of \<open>manifests/<service>/.<service>.secrets\<close>) and the two counters.
\<close>

record run_state =
  secret_files :: "(string \<times> string list) list"
  decrypted_count :: int
  failed_count :: int

definition secret_line :: "string \<Rightarrow> string \<Rightarrow> string" where
  "secret_line secret_key v = secret_key @ ''='' @ v @ [CHR 0x0A]"

text \<open>
  The \<open>try\<close> block of the inner loop, on the open file \<open>f\<close> (its lines so far) and the
  counters: decrypt, write \<open>key=plaintext\<close>, print the mark, count. When one of them
  raises, the block ends with the exception and with the file as it is at that moment:
  a line already written stays written.
\<close>

definition main_secret_try ::
  "py_library \<Rightarrow> py_io \<Rightarrow> bytes \<Rightarrow> string \<times> string \<Rightarrow> string list \<times> int \<times> int
     \<Rightarrow> (py_exception \<times> string list) + string list \<times> int \<times> int" where
  "main_secret_try lib io key entry st =
     (case (entry, st) of ((secret_key, encrypted_value), (f, decrypted, failed)) \<Rightarrow>
        (case decrypt_value lib encrypted_value key 16 of
           Inl e \<Rightarrow> Inl (e, f)
         | Inr decrypted_value \<Rightarrow>
             (case write_error io f (secret_line secret_key decrypted_value) of
                Some e \<Rightarrow> Inl (e, f)
              | None \<Rightarrow>
                  (let f' = f @ [secret_line secret_key decrypted_value] in
                   case print_error io Ok_mark of
                     Some e \<Rightarrow> Inl (e, f')
                   | None \<Rightarrow> Inr (f', decrypted + 1, failed)))))"

text \<open>
  The \<open>except Exception as e\<close> block: print the failure with \<open>str(e)\<close>, write
  \<open>key=encrypted value\<close>, count. Nothing catches what this block raises.
\<close>

definition main_secret_except ::
  "py_io \<Rightarrow> string \<times> string \<Rightarrow> py_exception \<Rightarrow> string list \<times> int \<times> int
     \<Rightarrow> (py_exception \<times> string list) + string list \<times> int \<times> int" where
  "main_secret_except io entry e st =
     (case (entry, st) of ((secret_key, encrypted_value), (f, decrypted, failed)) \<Rightarrow>
        (case print_error io (Failed_mark (str_of e)) of
           Some e' \<Rightarrow> Inl (e', f)
         | None \<Rightarrow>
             (case write_error io f (secret_line secret_key encrypted_value) of
                Some e' \<Rightarrow> Inl (e', f)
              | None \<Rightarrow> Inr (f @ [secret_line secret_key encrypted_value], decrypted, failed + 1))))"

text \<open>
  The body of the inner loop: the print ahead of the \<open>try\<close>, the \<open>try\<close> block, and the
  handler on the file as the \<open>try\<close> block left it.
\<close>

definition main_secret_step ::
  "py_library \<Rightarrow> py_io \<Rightarrow> bytes \<Rightarrow> string \<times> string \<Rightarrow> string list \<times> int \<times> int
     \<Rightarrow> (py_exception \<times> string list) + string list \<times> int \<times> int" where
  "main_secret_step lib io key entry st =
     (case (entry, st) of ((secret_key, encrypted_value), (f, decrypted, failed)) \<Rightarrow>
        (case print_error io (Decrypting secret_key) of
           Some e \<Rightarrow> Inl (e, f)
         | None \<Rightarrow>
             (case main_secret_try lib io key entry st of
                Inr st' \<Rightarrow> Inr st'
              | Inl (e, f') \<Rightarrow> main_secret_except io entry e (f', decrypted, failed))))"

fun main_secret_loop ::
  "py_library \<Rightarrow> py_io \<Rightarrow> bytes \<Rightarrow> (string \<times> string) list \<Rightarrow> string list \<times> int \<times> int
     \<Rightarrow> (py_exception \<times> string list) + string list \<times> int \<times> int" where
  "main_secret_loop lib io key [] st = Inr st"
| "main_secret_loop lib io key (entry # rest) st =
     (case main_secret_step lib io key entry st of
        Inl x \<Rightarrow> Inl x
      | Inr st' \<Rightarrow> main_secret_loop lib io key rest st')"

text \<open>
  The outer loop. \<open>dir_exists service_name\<close> is \<open>(manifests_dir / service_name).exists()\<close>.
  A service without directory, with empty secrets or with secrets that are no object is
  skipped. For any other one: print, open the secret file for writing, run the inner
  loop, close the file (also when the inner loop raised, and then an exception of the
  closing replaces the one of the loop), \<open>chmod\<close>, print an empty line.
\<close>

fun main_service_loop ::
  "py_library \<Rightarrow> py_io \<Rightarrow> (string \<Rightarrow> bool) \<Rightarrow> bytes \<Rightarrow> (string \<times> service_secrets) list
     \<Rightarrow> run_state \<Rightarrow> py_exception + run_state" where
  "main_service_loop lib io dir_exists key [] st = Inr st"
| "main_service_loop lib io dir_exists key ((service_name, secrets) # rest) st =
     (if \<not> dir_exists service_name then main_service_loop lib io dir_exists key rest st
      else if \<not> truthy secrets \<or> \<not> isinstance_dict secrets
        then main_service_loop lib io dir_exists key rest st
      else
        (case print_error io (Processing service_name) of
           Some e \<Rightarrow> Inl e
         | None \<Rightarrow>
         (case open_error io service_name of
           Some e \<Rightarrow> Inl e
         | None \<Rightarrow>
         (case main_secret_loop lib io key (dict_items secrets)
                 ([], decrypted_count st, failed_count st) of
           Inl (e, f) \<Rightarrow>
             (case close_error io f of Some e' \<Rightarrow> Inl e' | None \<Rightarrow> Inl e)
         | Inr (f, decrypted, failed) \<Rightarrow>
         (case close_error io f of
           Some e \<Rightarrow> Inl e
         | None \<Rightarrow>
         (case chmod_error io service_name of
           Some e \<Rightarrow> Inl e
         | None \<Rightarrow>
         (case print_error io Blank_line of
           Some e \<Rightarrow> Inl e
         | None \<Rightarrow>
             main_service_loop lib io dir_exists key rest
               \<lparr>secret_files = secret_files st @ [(service_name, f)],
                decrypted_count = decrypted, failed_count = failed\<rparr>)))))))"

definition main_decrypt ::
  "py_library \<Rightarrow> py_io \<Rightarrow> (string \<Rightarrow> bool) \<Rightarrow> bytes \<Rightarrow> (string \<times> service_secrets) list
     \<Rightarrow> py_exception + run_state" where
  "main_decrypt lib io dir_exists key all_secrets =
     main_service_loop lib io dir_exists key all_secrets
       \<lparr>secret_files = [], decrypted_count = 0, failed_count = 0\<rparr>"

section \<open>Notions used to state the properties\<close>

text \<open>The services the outer loop does not skip, and their entries in the order of the loops.\<close>

definition processed_services ::
  "(string \<Rightarrow> bool) \<Rightarrow> (string \<times> service_secrets) list \<Rightarrow> (string \<times> service_secrets) list" where
  "processed_services dir_exists all_secrets =
     filter (\<lambda>(service_name, secrets).
               dir_exists service_name \<and> truthy secrets \<and> isinstance_dict secrets) all_secrets"

definition processed_entries ::
  "(string \<Rightarrow> bool) \<Rightarrow> (string \<times> service_secrets) list \<Rightarrow> (string \<times> string) list" where
  "processed_entries dir_exists all_secrets =
     concat (map (\<lambda>(service_name, secrets). dict_items secrets)
               (processed_services dir_exists all_secrets))"

text \<open>Every print and every operation on a secret file succeeds.\<close>

definition io_succeeds :: "py_io \<Rightarrow> bool" where
  "io_succeeds io \<longleftrightarrow>
     (\<forall>m. print_error io m = None) \<and> (\<forall>service_name. open_error io service_name = None)
     \<and> (\<forall>f text. write_error io f text = None) \<and> (\<forall>f. close_error io f = None)
     \<and> (\<forall>service_name. chmod_error io service_name = None)"

text \<open>
  What the inner loop writes for one entry when the output succeeds, and whether it then
  counts the entry as failed. Both depend on nothing but the entry itself, the key and
  the library.
\<close>

definition entry_line :: "py_library \<Rightarrow> bytes \<Rightarrow> string \<times> string \<Rightarrow> string" where
  "entry_line lib key entry =
     (case entry of (secret_key, encrypted_value) \<Rightarrow>
        (case decrypt_value lib encrypted_value key 16 of
           Inr plaintext \<Rightarrow> secret_line secret_key plaintext
         | Inl e \<Rightarrow> secret_line secret_key encrypted_value))"

definition entry_failed :: "py_library \<Rightarrow> bytes \<Rightarrow> string \<times> string \<Rightarrow> bool" where
  "entry_failed lib key entry =
     (case entry of (secret_key, encrypted_value) \<Rightarrow>
        (case decrypt_value lib encrypted_value key 16 of Inr plaintext \<Rightarrow> False | Inl e \<Rightarrow> True))"

section \<open>A library to run the script on concrete inputs\<close>

text \<open>
  \<open>sample_library\<close> fills the parameters so that terms can be evaluated. Base64 decoding
  follows \<open>binascii.a2b_base64\<close> in its default, non-strict mode (characters outside the
  alphabet are dropped; a complete pad sequence ends the input), with shorter error texts. UTF-8 is the standard
  encoding for the code points up to U+00FF, which are the ones a \<open>char\<close> can hold. The
  two cryptographic primitives are stand-ins: the key derivation returns as many bytes as
  requested, each a checksum of salt and key material, and the AEAD checks the sizes of key, nonce
  and data as \<open>AESGCM\<close> does, then compares the last 16 bytes with a checksum. Every
  theorem on the script holds for any library; the stand-ins only serve in the
  evaluations at concrete inputs.
\<close>

definition b64_index :: "char \<Rightarrow> nat option" where
  "b64_index c =
     (let n = (of_char c :: nat) in
      if 65 \<le> n \<and> n \<le> 90 then Some (n - 65)
      else if 97 \<le> n \<and> n \<le> 122 then Some (n - 71)
      else if 48 \<le> n \<and> n \<le> 57 then Some (n + 4)
      else if n = 43 then Some 62
      else if n = 47 then Some 63
      else None)"

fun a2b_base64 :: "string \<Rightarrow> nat \<Rightarrow> nat \<Rightarrow> nat \<Rightarrow> bytes \<Rightarrow> py_exception + bytes" where
  "a2b_base64 [] quad_pos leftchar pads out =
     (if quad_pos = 0 then Inr out
      else if quad_pos = 1 then Inl (Raised BinasciiError ''Invalid base64-encoded string'')
      else Inl (Raised BinasciiError ''Incorrect padding''))"
| "a2b_base64 (c # cs) quad_pos leftchar pads out =
     (if c = CHR ''='' then
        (if quad_pos \<ge> 2 then
           (if quad_pos + (pads + 1) \<ge> 4 then Inr out
            else a2b_base64 cs quad_pos leftchar (pads + 1) out)
         else a2b_base64 cs quad_pos leftchar pads out)
      else
        (case b64_index c of
           None \<Rightarrow> a2b_base64 cs quad_pos leftchar pads out
         | Some v \<Rightarrow>
             (if quad_pos = 0 then a2b_base64 cs 1 v 0 out
              else if quad_pos = 1 then
                a2b_base64 cs 2 (v mod 16) 0 (out @ [of_nat (leftchar * 4 + v div 16)])
              else if quad_pos = 2 then
                a2b_base64 cs 3 (v mod 4) 0 (out @ [of_nat (leftchar * 16 + v div 4)])
              else a2b_base64 cs 0 0 0 (out @ [of_nat (leftchar * 64 + v)]))))"

definition sample_b64decode :: "string \<Rightarrow> py_exception + bytes" where
  "sample_b64decode s =
     (if \<exists>c \<in> set s. (of_char c :: nat) \<ge> 128
      then Inl (Raised ValueError ''string argument should contain only ASCII characters'')
      else a2b_base64 s 0 0 0 [])"

definition sample_encode_utf8 :: "string \<Rightarrow> py_exception + bytes" where
  "sample_encode_utf8 s =
     Inr (concat (map (\<lambda>c. let n = (of_char c :: nat) in
                         if n < 128 then [of_nat n]
                         else [of_nat (192 + n div 64), of_nat (128 + n mod 64)]) s))"

fun sample_decode_utf8 :: "bytes \<Rightarrow> py_exception + string" where
  "sample_decode_utf8 [] = Inr []"
| "sample_decode_utf8 (b # bs) =
     (if unat b < 128 then and_then (sample_decode_utf8 bs) (\<lambda>s. Inr (char_of (unat b) # s))
      else if unat b = 194 \<or> unat b = 195 then
        (case bs of
           [] \<Rightarrow> Inl (Raised UnicodeDecodeError ''unexpected end of data'')
         | c # cs \<Rightarrow>
             if 128 \<le> unat c \<and> unat c < 192
             then and_then (sample_decode_utf8 cs)
                    (\<lambda>s. Inr (char_of ((unat b - 192) * 64 + (unat c - 128)) # s))
             else Inl (Raised UnicodeDecodeError ''invalid continuation byte''))
      else Inl (Raised UnicodeDecodeError ''invalid start byte''))"

definition byte_sum :: "bytes \<Rightarrow> nat" where
  "byte_sum bs = sum_list (map unat bs)"

definition sample_pbkdf2hmac_derive :: "pbkdf2hmac \<Rightarrow> bytes \<Rightarrow> py_exception + bytes" where
  "sample_pbkdf2hmac_derive kdf key_material =
     Inr (replicate (kdf_length kdf) (of_nat (byte_sum (kdf_salt kdf) + byte_sum key_material)))"

definition sample_tag :: "bytes \<Rightarrow> bytes \<Rightarrow> bytes \<Rightarrow> bytes" where
  "sample_tag key nonce ct = replicate 16 (of_nat (byte_sum key + byte_sum nonce + byte_sum ct))"

definition sample_aesgcm_decrypt ::
  "bytes \<Rightarrow> bytes \<Rightarrow> bytes \<Rightarrow> bytes option \<Rightarrow> py_exception + bytes" where
  "sample_aesgcm_decrypt key nonce data associated_data =
     (if length key \<noteq> 16 \<and> length key \<noteq> 24 \<and> length key \<noteq> 32
        then Inl (Raised ValueError ''AESGCM key must be 128, 192, or 256 bits.'')
      else if length nonce < 8 \<or> length nonce > 128
        then Inl (Raised ValueError ''Nonce must be between 8 and 128 bytes'')
      else if length data < 16 then Inl (Raised InvalidTag [])
      else
        (let ct = take (length data - 16) data; tag = drop (length data - 16) data
         in if tag = sample_tag key nonce ct
            then Inr (map (\<lambda>c. of_nat (unat c + byte_sum key)) ct)
            else Inl (Raised InvalidTag [])))"

definition sample_library :: py_library where
  "sample_library =
     \<lparr>b64decode = sample_b64decode, str_encode_utf8 = sample_encode_utf8,
      bytes_decode_utf8 = sample_decode_utf8, pbkdf2hmac_derive = sample_pbkdf2hmac_derive,
      aesgcm_decrypt = sample_aesgcm_decrypt\<rparr>"

definition zero_key :: bytes where
  "zero_key = replicate 32 0"

text \<open>
  Two worlds to run the loops in. In \<open>quiet_io\<close> every operation succeeds. In \<open>ascii_io\<close>
  the console and the secret files are encoded in ASCII, as with Python 3.6 under the
  C locale: printing or writing a text with a character outside ASCII raises
  \<open>UnicodeEncodeError\<close>, and the two marks the script prints are such texts.
\<close>

definition quiet_io :: py_io where
  "quiet_io =
     \<lparr>print_error = (\<lambda>m. None), open_error = (\<lambda>service_name. None),
      write_error = (\<lambda>f text. None), close_error = (\<lambda>f. None),
      chmod_error = (\<lambda>service_name. None)\<rparr>"




section \<open>Auxiliary facts\<close>

lemma py_slice_prefix: "0 \<le> k \<Longrightarrow> py_slice None (Some k) xs = take (nat k) xs"
  by (auto simp: py_slice_def slice_bound_def Let_def min_def)

lemma py_slice_suffix: "0 \<le> k \<Longrightarrow> py_slice (Some k) None xs = drop (nat k) xs"
  by (auto simp: py_slice_def slice_bound_def Let_def min_def)

lemma py_slice_middle:
  "0 \<le> j \<Longrightarrow> j \<le> k \<Longrightarrow> py_slice (Some j) (Some k) xs = take (nat (k - j)) (drop (nat j) xs)"
  by (auto simp: py_slice_def slice_bound_def Let_def min_def)

lemma decrypt_value_16:
  "decrypt_value lib ciphertext_b64 key 16 =
     (case b64decode lib ciphertext_b64 of
        Inl e \<Rightarrow> Inl (Raised ValueError (''Decryption failed: '' @ str_of e))
      | Inr encrypted_data \<Rightarrow>
          (case aesgcm_decrypt lib key (take 12 encrypted_data)
                  (drop 28 encrypted_data @ take 16 (drop 12 encrypted_data)) None of
             Inl e \<Rightarrow> Inl (Raised ValueError (''Decryption failed: '' @ str_of e))
           | Inr plaintext \<Rightarrow>
               (case bytes_decode_utf8 lib plaintext of
                  Inl e \<Rightarrow> Inl (Raised ValueError (''Decryption failed: '' @ str_of e))
                | Inr s \<Rightarrow> Inr s)))"
  by (simp add: decrypt_value_def try_except_def and_then_def Let_def
        py_slice_prefix py_slice_suffix py_slice_middle split: sum.splits)

lemma main_secret_step_quiet:
  assumes "io_succeeds io"
  shows "main_secret_step lib io key entry (f, decrypted, failed) =
     Inr (f @ [entry_line lib key entry],
          decrypted + (if entry_failed lib key entry then 0 else 1),
          failed + (if entry_failed lib key entry then 1 else 0))"
  using assms
  by (cases entry)
     (simp add: io_succeeds_def main_secret_step_def main_secret_try_def main_secret_except_def
        entry_line_def entry_failed_def split: sum.split)

lemma main_secret_loop_quiet:
  assumes "io_succeeds io"
  shows "main_secret_loop lib io key entries (f, decrypted, failed) =
     Inr (f @ map (entry_line lib key) entries,
          decrypted + int (length (filter (\<lambda>entry. \<not> entry_failed lib key entry) entries)),
          failed + int (length (filter (entry_failed lib key) entries)))"
proof (induction entries arbitrary: f decrypted failed)
  case Nil
  show ?case by simp
next
  case (Cons entry rest)
  show ?case
    by (simp add: main_secret_step_quiet [OF assms] Cons.IH)
qed

lemma main_service_loop_quiet:
  assumes "io_succeeds io"
  shows "main_service_loop lib io dir_exists key all_secrets st =
     Inr \<lparr>secret_files = secret_files st @
             map (\<lambda>(service_name, secrets).
                    (service_name, map (entry_line lib key) (dict_items secrets)))
               (processed_services dir_exists all_secrets),
          decrypted_count = decrypted_count st +
             int (length (filter (\<lambda>entry. \<not> entry_failed lib key entry)
                            (processed_entries dir_exists all_secrets))),
          failed_count = failed_count st +
             int (length (filter (entry_failed lib key)
                            (processed_entries dir_exists all_secrets)))\<rparr>"
proof (induction all_secrets arbitrary: st)
  case Nil
  show ?case
    by (simp add: processed_services_def processed_entries_def)
next
  case (Cons service rest)
  obtain service_name secrets where service: "service = (service_name, secrets)"
    by (cases service)
  have io: "print_error io m = None" "open_error io n = None" "close_error io f = None"
    "chmod_error io n = None" for m n f
    using assms by (simp_all add: io_succeeds_def)
  show ?case
  proof (cases "dir_exists service_name \<and> truthy secrets \<and> isinstance_dict secrets")
    case True
    then show ?thesis
      unfolding service
      by (simp add: main_secret_loop_quiet [OF assms] io Cons.IH
            processed_services_def processed_entries_def)
  next
    case False
    then show ?thesis
      unfolding service
      by (auto simp: Cons.IH processed_services_def processed_entries_def)
  qed
qed

text \<open>Whatever the output does, an iteration that ends without raising counts its entry once.\<close>

lemma main_secret_step_tally:
  assumes "main_secret_step lib io key entry (f, decrypted, failed) = Inr (f', decrypted', failed')"
  shows "decrypted' + failed' = decrypted + failed + 1"
  using assms
  by (cases entry)
     (auto simp: main_secret_step_def main_secret_try_def main_secret_except_def Let_def
        split: sum.splits option.splits prod.splits)

lemma main_secret_loop_tally:
  assumes "main_secret_loop lib io key entries (f, decrypted, failed) = Inr (f', decrypted', failed')"
  shows "decrypted' + failed' = decrypted + failed + int (length entries)"
  using assms
proof (induction entries arbitrary: f decrypted failed)
  case Nil
  then show ?case by simp
next
  case (Cons entry rest)
  from Cons.prems obtain f1 d1 n1 where
    step: "main_secret_step lib io key entry (f, decrypted, failed) = Inr (f1, d1, n1)"
    and rest: "main_secret_loop lib io key rest (f1, d1, n1) = Inr (f', decrypted', failed')"
    by (auto split: sum.splits)
  from main_secret_step_tally [OF step] Cons.IH [OF rest] show ?case
    by simp
qed

lemma main_service_loop_tally:
  assumes "main_service_loop lib io dir_exists key all_secrets st = Inr st'"
  shows "decrypted_count st' + failed_count st' =
     decrypted_count st + failed_count st + int (length (processed_entries dir_exists all_secrets))"
  using assms
proof (induction all_secrets arbitrary: st)
  case Nil
  then show ?case
    by (simp add: processed_services_def processed_entries_def)
next
  case (Cons service rest)
  obtain service_name secrets where service: "service = (service_name, secrets)"
    by (cases service)
  show ?case
  proof (cases "dir_exists service_name \<and> truthy secrets \<and> isinstance_dict secrets")
    case True
    with Cons.prems obtain f d n where
      loop: "main_secret_loop lib io key (dict_items secrets)
               ([], decrypted_count st, failed_count st) = Inr (f, d, n)"
      and rest: "main_service_loop lib io dir_exists key rest
               \<lparr>secret_files = secret_files st @ [(service_name, f)],
                decrypted_count = d, failed_count = n\<rparr> = Inr st'"
      unfolding service
      by (auto split: sum.splits option.splits prod.splits)
    from main_secret_loop_tally [OF loop] Cons.IH [OF rest] True show ?thesis
      unfolding service
      by (simp add: processed_services_def processed_entries_def)
  next
    case False
    with Cons.prems have "main_service_loop lib io dir_exists key rest st = Inr st'"
      unfolding service by (auto split: if_splits)
    from Cons.IH [OF this] False show ?thesis
      unfolding service
      by (auto simp: processed_services_def processed_entries_def)
  qed
qed

subsection \<open>The two sample worlds\<close>

lemma quiet_io_succeeds: "io_succeeds quiet_io"
  by (simp add: io_succeeds_def quiet_io_def)

lemma quiet_print: "print_error quiet_io m = None"
  by (simp add: quiet_io_def)

lemma quiet_write: "write_error quiet_io f text = None"
  by (simp add: quiet_io_def)



subsection \<open>Evaluations with the sample library\<close>

lemma eval_salt: "b64decode sample_library ''AAAAAAAAAAAAAAAA'' = Inr (replicate 12 0)"
  by code_simp

lemma eval_pw: "str_encode_utf8 sample_library ''pw'' = Inr [112, 119]"
  by code_simp

lemma sample_kdf_length:
  "\<forall>kdf key_material k.
     pbkdf2hmac_derive sample_library kdf key_material = Inr k \<longrightarrow> length k = kdf_length kdf"
  by (auto simp: sample_library_def sample_pbkdf2hmac_derive_def)

lemma eval_kdf:
  "pbkdf2hmac_derive sample_library
       \<lparr>kdf_algorithm = SHA256, kdf_length = 32,
        kdf_salt = replicate 12 0, kdf_iterations = 1000000\<rparr> [112, 119]
     = Inr (replicate 32 231)"
  by (simp add: sample_library_def sample_pbkdf2hmac_derive_def byte_sum_def sum_list_replicate)

lemma eval_short_blob: "b64decode sample_library ''AAAA'' = Inr [0, 0, 0]"
  by code_simp

lemma eval_bad_b64:
  "b64decode sample_library ''A'' = Inl (Raised BinasciiError ''Invalid base64-encoded string'')"
  by code_simp

lemma eval_good_blob:
  "b64decode sample_library ''AAAAAAAAAAAAAAAA0dHR0dHR0dHR0dHR0dHR0Whp'' =
     Inr (replicate 12 0 @ replicate 16 209 @ [104, 105])"
  by code_simp


lemma eval_decrypt_short:
  "decrypt_value sample_library ''AAAA'' zero_key 16 =
     Inl (Raised ValueError ''Decryption failed: Nonce must be between 8 and 128 bytes'')"
  by code_simp

lemma eval_decrypt_tampered:
  "decrypt_value sample_library ''AAAAAAAAAAAAAAAA0dHR0dHR0dHR0dHR0dHR0Whq'' zero_key 16 =
     Inl (Raised ValueError ''Decryption failed: '')"
  by code_simp

lemma eval_decrypt_not_utf8:
  "decrypt_value sample_library ''AAAAAAAAAAAAAAAA//////////////////////8='' zero_key 16 =
     Inl (Raised ValueError ''Decryption failed: invalid start byte'')"
  by code_simp

lemma eval_key_b64:
  "b64decode sample_library ''5+fn5+fn5+fn5+fn5+fn5+fn5+fn5+fn5+fn5+fn5+c='' = Inr (replicate 32 231)"
  by code_simp

lemma eval_derive:
  "derive_key_from_password sample_library ''pw'' ''AAAAAAAAAAAAAAAA'' = Inr (replicate 32 231)"
  by (simp add: derive_key_from_password_def and_then_def eval_salt eval_pw eval_kdf)

lemma eval_kdf_short_salt:
  "pbkdf2hmac_derive sample_library
       \<lparr>kdf_algorithm = SHA256, kdf_length = 32,
        kdf_salt = [0, 0, 0], kdf_iterations = 1000000\<rparr> [112, 119]
     = Inr (replicate 32 231)"
  by (simp add: sample_library_def sample_pbkdf2hmac_derive_def byte_sum_def)

lemma eval_derive_short_salt:
  "derive_key_from_password sample_library ''pw'' ''AAAA'' = Inr (replicate 32 231)"
  by (simp add: derive_key_from_password_def and_then_def eval_short_blob eval_pw eval_kdf_short_salt)

lemma sample_aead_rejects_short:
  "\<forall>k n data. length data < 16 \<longrightarrow> (\<exists>e. aesgcm_decrypt sample_library k n data None = Inl e)"
  by (simp add: sample_library_def sample_aesgcm_decrypt_def)

lemma eval_aead_good:
  "aesgcm_decrypt sample_library zero_key (replicate 12 0) ([104, 105] @ replicate 16 209) None
     = Inr [104, 105]"
  by code_simp

lemma eval_utf8_hi: "bytes_decode_utf8 sample_library [104, 105] = Inr ''hi''"
  by code_simp

lemma eval_tampered_blob:
  "b64decode sample_library ''AAAAAAAAAAAAAAAA0dHR0dHR0dHR0dHR0dHR0Whq'' =
     Inr (replicate 12 0 @ replicate 16 209 @ [104, 106])"
  by code_simp

lemma eval_aead_tampered:
  "aesgcm_decrypt sample_library zero_key
     (take 12 (replicate 12 0 @ replicate 16 209 @ [104, 106]))
     (drop 28 (replicate 12 0 @ replicate 16 209 @ [104, 106])
        @ take 16 (drop 12 (replicate 12 0 @ replicate 16 209 @ [104, 106]))) None
     = Inl (Raised InvalidTag [])"
  by code_simp

lemma eval_not_utf8_blob:
  "b64decode sample_library ''AAAAAAAAAAAAAAAA//////////////////////8='' =
     Inr (replicate 12 0 @ replicate 16 255 @ [255])"
  by code_simp

lemma eval_aead_not_utf8:
  "aesgcm_decrypt sample_library zero_key
     (take 12 (replicate 12 0 @ replicate 16 255 @ [255]))
     (drop 28 (replicate 12 0 @ replicate 16 255 @ [255])
        @ take 16 (drop 12 (replicate 12 0 @ replicate 16 255 @ [255]))) None
     = Inr [255]"
  by code_simp

lemma eval_utf8_invalid:
  "bytes_decode_utf8 sample_library [255] = Inl (Raised UnicodeDecodeError ''invalid start byte'')"
  by code_simp

section \<open>Key derivation\<close>

text \<open>
  C1. When the salt text decodes as Base64 and the password encodes as UTF-8,
  \<open>derive_key_from_password\<close> returns what PBKDF2 with HMAC-SHA-256 returns for the
  encoded password, the decoded salt, 1,000,000 iterations and a requested length of 32
  bytes. The result is a function of password and salt: any two results for the same
  inputs are equal, and, the primitive returning as many bytes as requested, 32 bytes long.
\<close>

theorem derive_key_is_pbkdf2_hmac_sha256:
  assumes salt: "b64decode lib salt_b64 = Inr salt_bytes"
    and pw: "str_encode_utf8 lib password = Inr password_bytes"
    and len: "\<forall>kdf key_material k.
                pbkdf2hmac_derive lib kdf key_material = Inr k \<longrightarrow> length k = kdf_length kdf"
  shows "derive_key_from_password lib password salt_b64 =
           pbkdf2hmac_derive lib
             \<lparr>kdf_algorithm = SHA256, kdf_length = 32,
              kdf_salt = salt_bytes, kdf_iterations = 1000000\<rparr> password_bytes
         \<and> (\<forall>k k'. derive_key_from_password lib password salt_b64 = Inr k
                \<longrightarrow> derive_key_from_password lib password salt_b64 = Inr k'
                \<longrightarrow> k' = k \<and> length k = 32)"
proof -
  have eq: "derive_key_from_password lib password salt_b64 =
           pbkdf2hmac_derive lib
             \<lparr>kdf_algorithm = SHA256, kdf_length = 32,
              kdf_salt = salt_bytes, kdf_iterations = 1000000\<rparr> password_bytes"
    by (simp add: derive_key_from_password_def and_then_def salt pw)
  have "length k = 32" if "derive_key_from_password lib password salt_b64 = Inr k" for k
  proof -
    from that eq have "pbkdf2hmac_derive lib
             \<lparr>kdf_algorithm = SHA256, kdf_length = 32,
              kdf_salt = salt_bytes, kdf_iterations = 1000000\<rparr> password_bytes = Inr k"
      by simp
    with len have "length k = kdf_length \<lparr>kdf_algorithm = SHA256, kdf_length = 32,
              kdf_salt = salt_bytes, kdf_iterations = 1000000\<rparr>"
      by blast
    then show ?thesis by simp
  qed
  with eq show ?thesis by simp
qed

theorem derive_key_is_pbkdf2_hmac_sha256_witness:
  "\<exists>k. derive_key_from_password sample_library ''pw'' ''AAAAAAAAAAAAAAAA'' = Inr k
       \<and> pbkdf2hmac_derive sample_library
            \<lparr>kdf_algorithm = SHA256, kdf_length = 32,
             kdf_salt = replicate 12 0, kdf_iterations = 1000000\<rparr> [112, 119] = Inr k
       \<and> length k = 32"
proof -
  note T = derive_key_is_pbkdf2_hmac_sha256 [OF eval_salt eval_pw sample_kdf_length]
  have a: "derive_key_from_password sample_library ''pw'' ''AAAAAAAAAAAAAAAA'' =
     pbkdf2hmac_derive sample_library
       \<lparr>kdf_algorithm = SHA256, kdf_length = 32,
        kdf_salt = replicate 12 0, kdf_iterations = 1000000\<rparr> [112, 119]"
    using T by (rule conjunct1)
  have c: "derive_key_from_password sample_library ''pw'' ''AAAAAAAAAAAAAAAA'' =
     Inr (replicate 32 231)"
    by (rule trans [OF a eval_kdf])
  have l: "length (replicate 32 231 :: bytes) = 32"
    by (rule conjunct2 [OF T [THEN conjunct2, rule_format, OF c c]])
  show ?thesis
    by (rule exI [where x = "replicate 32 231"]) (intro conjI c eval_kdf l)
qed

text \<open>
  C5, as the script has it. \<open>derive_key_from_password\<close> does not look at the length of
  the decoded salt: for a salt that decodes to a number of bytes other than 12 it encodes
  the password and runs PBKDF2 on that salt all the same. It raises exactly when decoding
  the salt raises, encoding the password raises, or PBKDF2 itself raises.
\<close>

theorem derive_key_no_salt_length_check:
  "(\<forall>salt_bytes. b64decode lib salt_b64 = Inr salt_bytes \<longrightarrow> length salt_bytes \<noteq> 12 \<longrightarrow>
      derive_key_from_password lib password salt_b64 =
        (case str_encode_utf8 lib password of
           Inl e \<Rightarrow> Inl e
         | Inr password_bytes \<Rightarrow>
             pbkdf2hmac_derive lib
               \<lparr>kdf_algorithm = SHA256, kdf_length = 32,
                kdf_salt = salt_bytes, kdf_iterations = 1000000\<rparr> password_bytes))
   \<and> ((\<exists>e. derive_key_from_password lib password salt_b64 = Inl e) \<longleftrightarrow>
        (\<exists>e. b64decode lib salt_b64 = Inl e)
        \<or> (\<exists>e. str_encode_utf8 lib password = Inl e)
        \<or> (\<exists>salt_bytes password_bytes e.
              b64decode lib salt_b64 = Inr salt_bytes
              \<and> str_encode_utf8 lib password = Inr password_bytes
              \<and> pbkdf2hmac_derive lib
                   \<lparr>kdf_algorithm = SHA256, kdf_length = 32,
                    kdf_salt = salt_bytes, kdf_iterations = 1000000\<rparr> password_bytes = Inl e))"
proof (intro conjI allI impI)
  fix salt_bytes
  assume "b64decode lib salt_b64 = Inr salt_bytes"
  then show "derive_key_from_password lib password salt_b64 =
        (case str_encode_utf8 lib password of
           Inl e \<Rightarrow> Inl e
         | Inr password_bytes \<Rightarrow>
             pbkdf2hmac_derive lib
               \<lparr>kdf_algorithm = SHA256, kdf_length = 32,
                kdf_salt = salt_bytes, kdf_iterations = 1000000\<rparr> password_bytes)"
    by (simp add: derive_key_from_password_def and_then_def)
next
  show "(\<exists>e. derive_key_from_password lib password salt_b64 = Inl e) \<longleftrightarrow>
        (\<exists>e. b64decode lib salt_b64 = Inl e)
        \<or> (\<exists>e. str_encode_utf8 lib password = Inl e)
        \<or> (\<exists>salt_bytes password_bytes e.
              b64decode lib salt_b64 = Inr salt_bytes
              \<and> str_encode_utf8 lib password = Inr password_bytes
              \<and> pbkdf2hmac_derive lib
                   \<lparr>kdf_algorithm = SHA256, kdf_length = 32,
                    kdf_salt = salt_bytes, kdf_iterations = 1000000\<rparr> password_bytes = Inl e)"
    by (cases "b64decode lib salt_b64"; cases "str_encode_utf8 lib password")
       (simp_all add: derive_key_from_password_def and_then_def)
qed

theorem derive_key_no_salt_length_check_witness:
  "b64decode sample_library ''AAAA'' = Inr [0, 0, 0] \<and> length [0, 0, 0 :: byte] \<noteq> 12
   \<and> derive_key_from_password sample_library ''pw'' ''AAAA'' =
        pbkdf2hmac_derive sample_library
          \<lparr>kdf_algorithm = SHA256, kdf_length = 32,
           kdf_salt = [0, 0, 0], kdf_iterations = 1000000\<rparr> [112, 119]"
proof -
  have l: "length [0, 0, 0 :: byte] \<noteq> 12" by simp
  note T = derive_key_no_salt_length_check [of sample_library "''AAAA''" "''pw''",
      THEN conjunct1, rule_format, OF eval_short_blob l]
  from T have "derive_key_from_password sample_library ''pw'' ''AAAA'' =
        pbkdf2hmac_derive sample_library
          \<lparr>kdf_algorithm = SHA256, kdf_length = 32,
           kdf_salt = [0, 0, 0], kdf_iterations = 1000000\<rparr> [112, 119]"
    by (simp only: eval_pw sum.case)
  with l eval_short_blob show ?thesis by blast
qed

text \<open>
  The salt \<open>AAAA\<close> decodes to three bytes, not twelve, and the derivation returns a key.
\<close>

theorem salt_length_counterexample:
  "b64decode sample_library ''AAAA'' = Inr [0, 0, 0] \<and> length [0, 0, 0 :: byte] \<noteq> 12
   \<and> derive_key_from_password sample_library ''pw'' ''AAAA'' = Inr (replicate 32 231)"
  by (simp add: eval_short_blob eval_derive_short_salt)

section \<open>Password verification\<close>

text \<open>
  C4. \<open>verify_password\<close> always returns a boolean and never raises. When the salt does
  not decode, when the derivation raises for any reason, or when the reference hash does
  not decode, the boolean is \<open>False\<close>, the same value a wrong password gives.
\<close>

theorem verify_password_never_raises:
  "(\<exists>b. verify_password lib password salt_b64 expected_hash_b64 = Inr b)
   \<and> (\<forall>e. b64decode lib salt_b64 = Inl e
          \<longrightarrow> verify_password lib password salt_b64 expected_hash_b64 = Inr False)
   \<and> (\<forall>e. derive_key_from_password lib password salt_b64 = Inl e
          \<longrightarrow> verify_password lib password salt_b64 expected_hash_b64 = Inr False)
   \<and> (\<forall>e. b64decode lib expected_hash_b64 = Inl e
          \<longrightarrow> verify_password lib password salt_b64 expected_hash_b64 = Inr False)"
  by (auto simp: verify_password_def derive_key_from_password_def try_except_def and_then_def
        split: sum.splits)

theorem verify_password_never_raises_witness:
  "b64decode sample_library ''A'' = Inl (Raised BinasciiError ''Invalid base64-encoded string'')
   \<and> derive_key_from_password sample_library ''pw'' ''A'' =
        Inl (Raised BinasciiError ''Invalid base64-encoded string'')
   \<and> verify_password sample_library ''pw'' ''A'' ''A'' = Inr False"
proof -
  have d: "derive_key_from_password sample_library ''pw'' ''A'' =
        Inl (Raised BinasciiError ''Invalid base64-encoded string'')"
    by (simp add: derive_key_from_password_def and_then_def eval_bad_b64)
  note T = verify_password_never_raises [of sample_library "''pw''" "''A''" "''A''"]
  from T eval_bad_b64 have "verify_password sample_library ''pw'' ''A'' ''A'' = Inr False"
    by blast
  with d eval_bad_b64 show ?thesis by blast
qed

text \<open>
  C7. When the derivation returns a key and the reference hash is a Base64 text of that
  key (it decodes to it), \<open>verify_password\<close> returns \<open>True\<close>.
\<close>

theorem verify_accepts_own_key:
  assumes "derive_key_from_password lib password salt_b64 = Inr k"
    and "b64decode lib hash_b64 = Inr k"
  shows "verify_password lib password salt_b64 hash_b64 = Inr True"
  using assms by (simp add: verify_password_def try_except_def and_then_def)

theorem verify_accepts_own_key_witness:
  "derive_key_from_password sample_library ''pw'' ''AAAAAAAAAAAAAAAA'' = Inr (replicate 32 231)
   \<and> b64decode sample_library ''5+fn5+fn5+fn5+fn5+fn5+fn5+fn5+fn5+fn5+fn5+c='' = Inr (replicate 32 231)
   \<and> verify_password sample_library ''pw'' ''AAAAAAAAAAAAAAAA''
        ''5+fn5+fn5+fn5+fn5+fn5+fn5+fn5+fn5+fn5+fn5+c='' = Inr True"
  using verify_accepts_own_key [OF eval_derive eval_key_b64] eval_derive eval_key_b64
  by blast

section \<open>Decryption of one value\<close>

text \<open>
  C6. For a blob that decodes to at least 28 bytes, \<open>decrypt_value\<close> takes the first 12
  bytes as nonce, the next 16 as tag and the rest as ciphertext, and its result is that of
  AES-GCM decryption under the given key and that nonce, of the ciphertext followed by the
  tag, with no associated data (\<open>None\<close>), the plaintext then decoded as UTF-8.
\<close>

theorem decrypt_value_framing:
  assumes dec: "b64decode lib ciphertext_b64 = Inr encrypted_data"
    and long: "28 \<le> length encrypted_data"
  shows "\<exists>nonce tag ciphertext.
           nonce = take 12 encrypted_data
         \<and> tag = take 16 (drop 12 encrypted_data)
         \<and> ciphertext = drop 28 encrypted_data
         \<and> length nonce = 12 \<and> length tag = 16
         \<and> encrypted_data = nonce @ tag @ ciphertext
         \<and> decrypt_value lib ciphertext_b64 key 16 =
             (case aesgcm_decrypt lib key nonce (ciphertext @ tag) None of
                Inl e \<Rightarrow> Inl (Raised ValueError (''Decryption failed: '' @ str_of e))
              | Inr plaintext \<Rightarrow>
                  (case bytes_decode_utf8 lib plaintext of
                     Inl e \<Rightarrow> Inl (Raised ValueError (''Decryption failed: '' @ str_of e))
                   | Inr s \<Rightarrow> Inr s))"
proof -
  have split: "encrypted_data =
      take 12 encrypted_data @ take 16 (drop 12 encrypted_data) @ drop 28 encrypted_data"
  proof -
    have "drop 12 encrypted_data =
            take 16 (drop 12 encrypted_data) @ drop 16 (drop 12 encrypted_data)"
      by (rule append_take_drop_id [symmetric])
    then have "drop 12 encrypted_data =
            take 16 (drop 12 encrypted_data) @ drop 28 encrypted_data"
      by simp
    then show ?thesis
      by (metis append_take_drop_id)
  qed
  have lens: "length (take 12 encrypted_data) = 12" "length (take 16 (drop 12 encrypted_data)) = 16"
    using long by simp_all
  show ?thesis
    using split lens by (simp add: decrypt_value_16 dec)
qed

theorem decrypt_value_framing_witness:
  "b64decode sample_library ''AAAAAAAAAAAAAAAA0dHR0dHR0dHR0dHR0dHR0Whp'' =
     Inr (replicate 12 0 @ replicate 16 209 @ [104, 105])
   \<and> aesgcm_decrypt sample_library zero_key (replicate 12 0) ([104, 105] @ replicate 16 209) None
        = Inr [104, 105]
   \<and> decrypt_value sample_library ''AAAAAAAAAAAAAAAA0dHR0dHR0dHR0dHR0dHR0Whp'' zero_key 16 =
        Inr ''hi''"
proof -
  have l: "28 \<le> length (replicate 12 0 @ replicate 16 209 @ [104, 105 :: byte])" by simp
  from decrypt_value_framing [OF eval_good_blob l, of zero_key]
  have "decrypt_value sample_library ''AAAAAAAAAAAAAAAA0dHR0dHR0dHR0dHR0dHR0Whp'' zero_key 16 =
             (case aesgcm_decrypt sample_library zero_key (replicate 12 0)
                     ([104, 105] @ replicate 16 209) None of
                Inl e \<Rightarrow> Inl (Raised ValueError (''Decryption failed: '' @ str_of e))
              | Inr plaintext \<Rightarrow>
                  (case bytes_decode_utf8 sample_library plaintext of
                     Inl e \<Rightarrow> Inl (Raised ValueError (''Decryption failed: '' @ str_of e))
                   | Inr s \<Rightarrow> Inr s))"
    by simp
  then have "decrypt_value sample_library ''AAAAAAAAAAAAAAAA0dHR0dHR0dHR0dHR0dHR0Whp'' zero_key 16 =
        Inr ''hi''"
    by (simp only: eval_aead_good eval_utf8_hi sum.case)
  with eval_good_blob eval_aead_good show ?thesis by blast
qed

text \<open>
  C2, as the script has it. \<open>decrypt_value\<close> makes no length check of its own. For a blob
  that decodes to fewer than 28 bytes it slices as always: the ciphertext is empty and
  the tag has fewer than 16 bytes. It hands them to AES-GCM, and, the primitive
  rejecting data shorter than its 16-byte tag, raises \<open>ValueError\<close> with the text
  \<open>Decryption failed: \<close> followed by the text of the primitive's exception.
\<close>

theorem decrypt_value_short_blob:
  assumes dec: "b64decode lib ciphertext_b64 = Inr encrypted_data"
    and short: "length encrypted_data < 28"
    and rejects: "\<forall>k n data. length data < 16 \<longrightarrow> (\<exists>e. aesgcm_decrypt lib k n data None = Inl e)"
  shows "\<exists>e. aesgcm_decrypt lib key (take 12 encrypted_data)
                (drop 28 encrypted_data @ take 16 (drop 12 encrypted_data)) None = Inl e
            \<and> length (drop 28 encrypted_data @ take 16 (drop 12 encrypted_data)) < 16
            \<and> decrypt_value lib ciphertext_b64 key 16 =
                Inl (Raised ValueError (''Decryption failed: '' @ str_of e))"
proof -
  let ?data = "drop 28 encrypted_data @ take 16 (drop 12 encrypted_data)"
  have len: "length ?data < 16"
    using short by simp
  with rejects obtain e where
    e: "aesgcm_decrypt lib key (take 12 encrypted_data) ?data None = Inl e"
    by blast
  have "decrypt_value lib ciphertext_b64 key 16 =
               Inl (Raised ValueError (''Decryption failed: '' @ str_of e))"
    unfolding decrypt_value_16 dec using e by (simp only: sum.case)
  with e len show ?thesis by blast
qed

theorem decrypt_value_short_blob_witness:
  "\<exists>e. aesgcm_decrypt sample_library zero_key (take 12 [0, 0, 0])
            (drop 28 [0, 0, 0] @ take 16 (drop 12 [0, 0, 0])) None = Inl e
      \<and> length (drop 28 [0, 0, 0 :: byte] @ take 16 (drop 12 [0, 0, 0])) < 16
      \<and> decrypt_value sample_library ''AAAA'' zero_key 16 =
           Inl (Raised ValueError (''Decryption failed: '' @ str_of e))"
proof -
  have "length [0, 0, 0 :: byte] < 28" by simp
  from decrypt_value_short_blob [OF eval_short_blob this sample_aead_rejects_short]
  show ?thesis .
qed

text \<open>
  The blob \<open>AAAA\<close> decodes to three zero bytes. \<open>decrypt_value\<close> does not report
  \<open>truncated ciphertext\<close> for it: the three bytes become the nonce, AES-GCM refuses a
  nonce that short, and that refusal is what the \<open>ValueError\<close> carries.
\<close>

theorem truncated_blob_counterexample:
  "b64decode sample_library ''AAAA'' = Inr [0, 0, 0] \<and> length [0, 0, 0 :: byte] < 28
   \<and> decrypt_value sample_library ''AAAA'' zero_key 16 =
       Inl (Raised ValueError ''Decryption failed: Nonce must be between 8 and 128 bytes'')
   \<and> decrypt_value sample_library ''AAAA'' zero_key 16 \<noteq>
       Inl (Raised ValueError ''truncated ciphertext'')"
  by (simp add: eval_short_blob eval_decrypt_short)

text \<open>
  C10. \<open>decrypt_value\<close> either returns a string or raises a \<open>ValueError\<close> whose text
  starts with \<open>Decryption failed: \<close>. A Base64 error, an error of AES-GCM and an error
  of the UTF-8 decoding each end as that \<open>ValueError\<close>, carrying the text of the original
  exception. The \<open>try\<close> of the inner loop of \<open>main\<close> catches it: the iteration continues
  in the handler, which, its print and its write succeeding, writes the encrypted value
  and adds one to the count of failures.
\<close>

theorem decrypt_value_raises_only_ValueError:
  "((\<exists>plaintext. decrypt_value lib ciphertext_b64 key tag_size = Inr plaintext)
     \<or> (\<exists>msg. decrypt_value lib ciphertext_b64 key tag_size =
                 Inl (Raised ValueError (''Decryption failed: '' @ msg))))
   \<and> (\<forall>e. b64decode lib ciphertext_b64 = Inl e \<longrightarrow>
          decrypt_value lib ciphertext_b64 key tag_size =
            Inl (Raised ValueError (''Decryption failed: '' @ str_of e)))
   \<and> (\<forall>encrypted_data e.
          b64decode lib ciphertext_b64 = Inr encrypted_data \<longrightarrow>
          aesgcm_decrypt lib key (take 12 encrypted_data)
            (drop 28 encrypted_data @ take 16 (drop 12 encrypted_data)) None = Inl e \<longrightarrow>
          decrypt_value lib ciphertext_b64 key 16 =
            Inl (Raised ValueError (''Decryption failed: '' @ str_of e)))
   \<and> (\<forall>encrypted_data plaintext e.
          b64decode lib ciphertext_b64 = Inr encrypted_data \<longrightarrow>
          aesgcm_decrypt lib key (take 12 encrypted_data)
            (drop 28 encrypted_data @ take 16 (drop 12 encrypted_data)) None = Inr plaintext \<longrightarrow>
          bytes_decode_utf8 lib plaintext = Inl e \<longrightarrow>
          decrypt_value lib ciphertext_b64 key 16 =
            Inl (Raised ValueError (''Decryption failed: '' @ str_of e)))
   \<and> (\<forall>e secret_key f decrypted failed.
          decrypt_value lib ciphertext_b64 key 16 = Inl e \<longrightarrow>
          print_error io (Decrypting secret_key) = None \<longrightarrow>
          main_secret_step lib io key (secret_key, ciphertext_b64) (f, decrypted, failed) =
            main_secret_except io (secret_key, ciphertext_b64) e (f, decrypted, failed))
   \<and> (\<forall>e secret_key f decrypted failed.
          decrypt_value lib ciphertext_b64 key 16 = Inl e \<longrightarrow>
          print_error io (Decrypting secret_key) = None \<longrightarrow>
          print_error io (Failed_mark (str_of e)) = None \<longrightarrow>
          write_error io f (secret_line secret_key ciphertext_b64) = None \<longrightarrow>
          main_secret_step lib io key (secret_key, ciphertext_b64) (f, decrypted, failed) =
            Inr (f @ [secret_line secret_key ciphertext_b64], decrypted, failed + 1))"
proof (intro conjI allI impI)
  show "(\<exists>plaintext. decrypt_value lib ciphertext_b64 key tag_size = Inr plaintext)
     \<or> (\<exists>msg. decrypt_value lib ciphertext_b64 key tag_size =
                 Inl (Raised ValueError (''Decryption failed: '' @ msg)))"
    unfolding decrypt_value_def try_except_def by (simp split: sum.split)
next
  fix e assume "b64decode lib ciphertext_b64 = Inl e"
  then show "decrypt_value lib ciphertext_b64 key tag_size =
            Inl (Raised ValueError (''Decryption failed: '' @ str_of e))"
    by (simp add: decrypt_value_def try_except_def and_then_def)
next
  fix encrypted_data e
  assume "b64decode lib ciphertext_b64 = Inr encrypted_data"
    and "aesgcm_decrypt lib key (take 12 encrypted_data)
            (drop 28 encrypted_data @ take 16 (drop 12 encrypted_data)) None = Inl e"
  then show "decrypt_value lib ciphertext_b64 key 16 =
            Inl (Raised ValueError (''Decryption failed: '' @ str_of e))"
    by (simp add: decrypt_value_16)
next
  fix encrypted_data plaintext e
  assume "b64decode lib ciphertext_b64 = Inr encrypted_data"
    and "aesgcm_decrypt lib key (take 12 encrypted_data)
            (drop 28 encrypted_data @ take 16 (drop 12 encrypted_data)) None = Inr plaintext"
    and "bytes_decode_utf8 lib plaintext = Inl e"
  then show "decrypt_value lib ciphertext_b64 key 16 =
            Inl (Raised ValueError (''Decryption failed: '' @ str_of e))"
    by (simp add: decrypt_value_16)
next
  fix e secret_key f decrypted failed
  assume "decrypt_value lib ciphertext_b64 key 16 = Inl e"
    and "print_error io (Decrypting secret_key) = None"
  then show "main_secret_step lib io key (secret_key, ciphertext_b64) (f, decrypted, failed) =
            main_secret_except io (secret_key, ciphertext_b64) e (f, decrypted, failed)"
    by (simp add: main_secret_step_def main_secret_try_def)
next
  fix e secret_key f decrypted failed
  assume "decrypt_value lib ciphertext_b64 key 16 = Inl e"
    and "print_error io (Decrypting secret_key) = None"
    and "print_error io (Failed_mark (str_of e)) = None"
    and "write_error io f (secret_line secret_key ciphertext_b64) = None"
  then show "main_secret_step lib io key (secret_key, ciphertext_b64) (f, decrypted, failed) =
            Inr (f @ [secret_line secret_key ciphertext_b64], decrypted, failed + 1)"
    by (simp add: main_secret_step_def main_secret_try_def main_secret_except_def)
qed

theorem decrypt_value_raises_only_ValueError_witness:
  "decrypt_value sample_library ''A'' zero_key 16 =
     Inl (Raised ValueError (''Decryption failed: '' @ ''Invalid base64-encoded string''))
   \<and> decrypt_value sample_library ''AAAAAAAAAAAAAAAA0dHR0dHR0dHR0dHR0dHR0Whq'' zero_key 16 =
     Inl (Raised ValueError (''Decryption failed: '' @ []))
   \<and> decrypt_value sample_library ''AAAAAAAAAAAAAAAA//////////////////////8='' zero_key 16 =
     Inl (Raised ValueError (''Decryption failed: '' @ ''invalid start byte''))
   \<and> main_secret_step sample_library quiet_io zero_key (''B'', ''AAAA'') ([], 0, 0) =
     main_secret_except quiet_io (''B'', ''AAAA'')
       (Raised ValueError ''Decryption failed: Nonce must be between 8 and 128 bytes'') ([], 0, 0)
   \<and> main_secret_step sample_library quiet_io zero_key (''B'', ''AAAA'') ([], 0, 0) =
     Inr ([] @ [secret_line ''B'' ''AAAA''], 0, 0 + 1)"
proof -
  note T = decrypt_value_raises_only_ValueError
  have a: "decrypt_value sample_library ''A'' zero_key 16 =
     Inl (Raised ValueError (''Decryption failed: '' @ ''Invalid base64-encoded string''))"
    using T [of sample_library "''A''" zero_key 16,
        THEN conjunct2, THEN conjunct1, rule_format, OF eval_bad_b64]
    by simp
  have b: "decrypt_value sample_library ''AAAAAAAAAAAAAAAA0dHR0dHR0dHR0dHR0dHR0Whq'' zero_key 16 =
     Inl (Raised ValueError (''Decryption failed: '' @ []))"
    using T [of sample_library _ zero_key 16,
        THEN conjunct2, THEN conjunct2, THEN conjunct1, rule_format,
        OF eval_tampered_blob eval_aead_tampered]
    by simp
  have c: "decrypt_value sample_library ''AAAAAAAAAAAAAAAA//////////////////////8='' zero_key 16 =
     Inl (Raised ValueError (''Decryption failed: '' @ ''invalid start byte''))"
    using T [of sample_library _ zero_key 16,
        THEN conjunct2, THEN conjunct2, THEN conjunct2, THEN conjunct1, rule_format,
        OF eval_not_utf8_blob eval_aead_not_utf8 eval_utf8_invalid]
    by simp
  have d: "main_secret_step sample_library quiet_io zero_key (''B'', ''AAAA'') ([], 0, 0) =
     main_secret_except quiet_io (''B'', ''AAAA'')
       (Raised ValueError ''Decryption failed: Nonce must be between 8 and 128 bytes'') ([], 0, 0)"
    by (rule T [of sample_library _ zero_key 16,
        THEN conjunct2, THEN conjunct2, THEN conjunct2, THEN conjunct2, THEN conjunct1,
        rule_format, OF eval_decrypt_short quiet_print])
  have e: "main_secret_step sample_library quiet_io zero_key (''B'', ''AAAA'') ([], 0, 0) =
     Inr ([] @ [secret_line ''B'' ''AAAA''], 0, 0 + 1)"
    by (rule T [of sample_library _ zero_key 16,
        THEN conjunct2, THEN conjunct2, THEN conjunct2, THEN conjunct2, THEN conjunct2,
        rule_format, OF eval_decrypt_short quiet_print quiet_print quiet_write])
  from a b c d e show ?thesis by blast
qed

section \<open>The loops of main\<close>




text \<open>
  C8. When the loops of \<open>main\<close> end without raising, whatever the prints and the file
  operations did on the way, the two counters add up to the number of entries of the
  services that were not skipped. And they do end so when every print and every file
  operation succeeds.
\<close>

theorem counts_add_up_to_entries:
  "(\<forall>st. main_decrypt lib io dir_exists key all_secrets = Inr st \<longrightarrow>
      decrypted_count st + failed_count st =
        int (length (processed_entries dir_exists all_secrets)))
   \<and> (io_succeeds io \<longrightarrow> (\<exists>st. main_decrypt lib io dir_exists key all_secrets = Inr st))"
proof (intro conjI allI impI)
  fix st
  assume "main_decrypt lib io dir_exists key all_secrets = Inr st"
  then have "main_service_loop lib io dir_exists key all_secrets
               \<lparr>secret_files = [], decrypted_count = 0, failed_count = 0\<rparr> = Inr st"
    by (simp add: main_decrypt_def)
  from main_service_loop_tally [OF this]
  show "decrypted_count st + failed_count st =
          int (length (processed_entries dir_exists all_secrets))"
    by simp
next
  assume "io_succeeds io"
  then show "\<exists>st. main_decrypt lib io dir_exists key all_secrets = Inr st"
    by (simp add: main_decrypt_def main_service_loop_quiet)
qed

theorem counts_add_up_to_entries_witness:
  "\<exists>st. main_decrypt sample_library quiet_io (\<lambda>service_name. True) zero_key
           [(''api'', Dict [(''A'', ''AAAAAAAAAAAAAAAA0dHR0dHR0dHR0dHR0dHR0Whp''),
                            (''B'', ''AAAAAAAAAAAAAAAA0dHR0dHR0dHR0dHR0dHR0Whq'')]),
            (''db'', Dict [(''P'', ''AAAAAAAAAAAAAAAA0dHR0dHR0dHR0dHR0dHR0Whp'')])] = Inr st
     \<and> decrypted_count st + failed_count st = 3"
proof -
  note T = counts_add_up_to_entries [of sample_library quiet_io "\<lambda>service_name. True" zero_key
      "[(''api'', Dict [(''A'', ''AAAAAAAAAAAAAAAA0dHR0dHR0dHR0dHR0dHR0Whp''),
                        (''B'', ''AAAAAAAAAAAAAAAA0dHR0dHR0dHR0dHR0dHR0Whq'')]),
        (''db'', Dict [(''P'', ''AAAAAAAAAAAAAAAA0dHR0dHR0dHR0dHR0dHR0Whp'')])]"]
  from T quiet_io_succeeds obtain st where
    st: "main_decrypt sample_library quiet_io (\<lambda>service_name. True) zero_key
           [(''api'', Dict [(''A'', ''AAAAAAAAAAAAAAAA0dHR0dHR0dHR0dHR0dHR0Whp''),
                            (''B'', ''AAAAAAAAAAAAAAAA0dHR0dHR0dHR0dHR0dHR0Whq'')]),
            (''db'', Dict [(''P'', ''AAAAAAAAAAAAAAAA0dHR0dHR0dHR0dHR0dHR0Whp'')])] = Inr st"
    by blast
  with T have "decrypted_count st + failed_count st = 3"
    by (simp add: processed_services_def processed_entries_def)
  with st show ?thesis by blast
qed

end
